theory Spec2Isabelle
  imports Main
begin

section \<open>Values shared by the handlers\<close>

text \<open>
  Errors are values of the arsenal library: an error class and, when
  \<open>customizeDescription\<close> was applied, the description that replaces the default one.
  \<open>OtherError\<close> stands for every error class the handlers do not name themselves
  (storage failures, conflicts, the codec's decode error).
\<close>

datatype errname = AccessDenied | NoSuchKey | MethodNotAllowed | InvalidArgument
  | OtherError string

datatype error = ArsenalError (errClass: errname) (customDescription: "string option")

definition errors :: "errname \<Rightarrow> error" where
  "errors c = ArsenalError c None"

definition customizeDescription :: "error \<Rightarrow> string \<Rightarrow> error" where
  "customizeDescription e msg = ArsenalError (errClass e) (Some msg)"

text \<open>
  Modelled from the spec: the status code of an error class. The table of arsenal is not
  part of the sources; section 6 of the specification gives the wire mapping
  AccessDenied(403), NoSuchKey(404), MethodNotAllowed(405), InvalidArgument(400).
\<close>

fun statusCode :: "errname \<Rightarrow> nat option" where
  "statusCode AccessDenied = Some 403"
| "statusCode NoSuchKey = Some 404"
| "statusCode MethodNotAllowed = Some 405"
| "statusCode InvalidArgument = Some 400"
| "statusCode (OtherError _) = None"

text \<open>
  A request query is a JavaScript object: reading a key that is absent gives
  \<open>undefined\<close>, and a key may also be present with the value \<open>undefined\<close>.
\<close>

datatype jsval = JUndefined | JNull | JString string

type_synonym query = "string \<rightharpoonup> jsval"

definition getProp :: "query \<Rightarrow> string \<Rightarrow> jsval" where
  "getProp q k = (case q k of None \<Rightarrow> JUndefined | Some v \<Rightarrow> v)"

text \<open>
  A value that is \<open>undefined\<close> or a string is \<open>string option\<close>; JavaScript takes it
  for true in a condition when it is a string that is not empty.
\<close>

definition truthy :: "string option \<Rightarrow> bool" where
  "truthy v = (case v of None \<Rightarrow> False | Some s \<Rightarrow> s \<noteq> [])"

section \<open>checkQueryVersionId\<close>

text \<open>
  \<open>query && query.versionId !== undefined\<close>: the query itself may be missing
  (\<open>None\<close>); the function returns the customised error, or \<open>undefined\<close>
  (\<open>None\<close>).
\<close>

definition checkQueryVersionId :: "query option \<Rightarrow> error option" where
  "checkQueryVersionId query =
     (case query of
        None \<Rightarrow> None
      | Some q \<Rightarrow>
          if getProp q ''versionId'' \<noteq> JUndefined
          then Some (customizeDescription (errors InvalidArgument)
                       ''This operation does not accept a version-id.'')
          else None)"

section \<open>objectDelete: data\<close>

record authInfo =
  isRequesterPublicUser :: bool
  getCanonicalID :: string

datatype versioningStatus = Enabled | Suspended

text \<open>
  Bucket metadata: \<open>getVersioningConfiguration()\<close> is \<open>undefined\<close> for a bucket on
  which versioning was never configured.
\<close>

record bucketInfo =
  getName :: string
  getVersioningConfiguration :: "versioningStatus option"

text \<open>Object metadata, with the two fields the handler reads.\<close>

record objectMD =
  content_length :: "nat option"
  isDeleteMarker :: bool
  md_versionId :: "string option"

record request =
  bucketName :: string
  objectKey :: string
  query :: "query option"
  headers_origin :: "string option"
  req_method :: string

record valParams =
  vp_authInfo :: authInfo
  vp_bucketName :: string
  vp_objectKey :: string
  vp_versionId :: "string option"
  vp_requestType :: string

text \<open>
  The options computed by \<open>preprocessingVersioningDelete\<close>; a field that is absent
  or false is \<open>False\<close>.
\<close>

record delOptions =
  deleteData :: bool
  opt_versionId :: "string option"

record deleteInfo =
  removeDeleteMarker :: bool
  newDeleteMarker :: bool

text \<open>The result that \<open>createAndStoreObject\<close> hands to its callback.\<close>

record storeResult =
  versionId :: "string option"

text \<open>
  The twelve positional arguments of the call of \<open>createAndStoreObject\<close>, without the
  logger and the callback. The seventh and the tenth are the literal \<open>null\<close> in the
  handler.
\<close>

record createArgs =
  ca_bucketName :: string
  ca_bucketMD :: bucketInfo
  ca_objectKey :: string
  ca_objMD :: "objectMD option"
  ca_authInfo :: authInfo
  ca_canonicalID :: string
  ca_seventh :: jsval
  ca_request :: request
  ca_isDeleteMarker :: bool
  ca_tenth :: jsval

record metricParams =
  mp_authInfo :: authInfo
  mp_bucket :: string
  newByteLength :: "nat option"
  oldByteLength :: "nat option"
  byteLength :: "nat option"
  numberOfObjects :: "nat option"

datatype hval = HBool bool | HString string

type_synonym headers = "string \<rightharpoonup> hval"

text \<open>
  What the handler does to the world, in order: the calls of its collaborators and the
  metrics it pushes. Logging is left out.
\<close>

datatype event =
    MetadataValidateBucketAndObj valParams
  | PreprocessingVersioningDelete string bucketInfo "objectMD option" "string option"
  | DeleteObject string objectMD string delOptions
  | CreateAndStoreObject createArgs
  | PushMetric string metricParams

text \<open>
  The handler ends by calling \<open>cb(err, resHeaders)\<close>, where either argument may be
  missing, or by an uncaught TypeError when it reads a property of \<open>undefined\<close>.
\<close>

datatype outcome = Callback "error option" "headers option" | TypeErrorThrown

text \<open>
  The error slot of the waterfall holds either the module's private \<open>skipError\<close>
  object, which no collaborator can produce since it is compared by identity and never
  exported, or an error that came from elsewhere.
\<close>

datatype wfError = SkipError | Err error

text \<open>
  The collaborators, none of which is among the sources: each is a parameter, called once
  with the arguments the handler gives it and answering through its callback once.
  \<^item> \<open>decodeVersionId\<close> returns an Error, \<open>undefined\<close> or the decoded id;
  \<^item> \<open>metadataValidateBucketAndObj\<close> calls back with \<open>(err, bucketMD)\<close> or with
    \<open>(null, bucketMD, objMD)\<close>, the object metadata possibly missing;
  \<^item> \<open>preprocessingVersioningDelete\<close> calls back with \<open>(err)\<close> or
    \<open>(null, options)\<close>;
  \<^item> \<open>services.deleteObject\<close> calls back with \<open>(err, delResult)\<close>; the handler never
    reads \<open>delResult\<close>;
  \<^item> \<open>createAndStoreObject\<close> calls back with \<open>(err)\<close> or \<open>(null, result)\<close>;
  \<^item> \<open>collectCorsHeaders\<close> and \<open>versionIdUtils.encode\<close> are pure.
\<close>

record env =
  decodeVersionId :: "query option \<Rightarrow> error + string option"
  metadataValidateBucketAndObj ::
    "valParams \<Rightarrow> (error \<times> bucketInfo option) + (bucketInfo \<times> objectMD option)"
  preprocessingVersioningDelete ::
    "string \<Rightarrow> bucketInfo \<Rightarrow> objectMD option \<Rightarrow> string option \<Rightarrow> error + delOptions option"
  services_deleteObject :: "string \<Rightarrow> objectMD \<Rightarrow> string \<Rightarrow> delOptions \<Rightarrow> error option"
  createAndStoreObject :: "createArgs \<Rightarrow> error + storeResult"
  collectCorsHeaders :: "string option \<Rightarrow> string \<Rightarrow> bucketInfo option \<Rightarrow> headers"
  versionIdUtils_encode :: "string \<Rightarrow> string"

section \<open>objectDelete: the waterfall\<close>

text \<open>
  The five arguments of the waterfall's final callback,
  \<open>(err, bucketMD, objectMD, result, deleteInfo)\<close>; a task that fails passes fewer,
  and the rest are \<open>undefined\<close>.
\<close>

type_synonym finalArgs =
  "wfError option \<times> bucketInfo option \<times> objectMD option \<times> storeResult option
     \<times> deleteInfo option"

text \<open>
  First task. \<open>Inl\<close> is \<open>next(err, bucketMD)\<close>, which ends the waterfall;
  \<open>Inr\<close> is \<open>next(null, bucketMD, objMD)\<close>.
\<close>

definition validateBucketAndObj ::
  "env \<Rightarrow> valParams \<Rightarrow> string option
     \<Rightarrow> ((wfError \<times> bucketInfo option) + (bucketInfo \<times> objectMD option)) \<times> event list" where
  "validateBucketAndObj E valParams reqVersionId =
     (case metadataValidateBucketAndObj E valParams of
        Inl (err, bucketMD) \<Rightarrow> Inl (Err err, bucketMD)
      | Inr (bucketMD, objMD) \<Rightarrow>
          (let versioningCfg = getVersioningConfiguration bucketMD in
           case objMD of
             None \<Rightarrow>
               if versioningCfg = None then Inl (Err (errors NoSuchKey), Some bucketMD)
               else if truthy reqVersionId then Inl (SkipError, Some bucketMD)
               else Inr (bucketMD, objMD)
           | Some _ \<Rightarrow> Inr (bucketMD, objMD)),
      [MetadataValidateBucketAndObj valParams])"

text \<open>Second task.\<close>

definition getVersioningInfo ::
  "env \<Rightarrow> string \<Rightarrow> string option \<Rightarrow> bucketInfo \<Rightarrow> objectMD option
     \<Rightarrow> ((wfError \<times> bucketInfo option) + (bucketInfo \<times> objectMD option \<times> delOptions option))
         \<times> event list" where
  "getVersioningInfo E bucketName' reqVersionId bucketMD objectMD' =
     (case preprocessingVersioningDelete E bucketName' bucketMD objectMD' reqVersionId of
        Inl err \<Rightarrow> Inl (Err err, Some bucketMD)
      | Inr options \<Rightarrow> Inr (bucketMD, objectMD', options),
      [PreprocessingVersioningDelete bucketName' bucketMD objectMD' reqVersionId])"

text \<open>
  Third task. \<open>None\<close> is the TypeError of \<open>objectMD.isDeleteMarker\<close> when the
  options ask for a deletion and there is no object metadata; nothing has been called
  then. Otherwise the task ends with
  \<open>next(err, bucketMD, objectMD, result, deleteInfo)\<close>.
\<close>

definition deleteOperation ::
  "env \<Rightarrow> authInfo \<Rightarrow> request \<Rightarrow> bucketInfo \<Rightarrow> objectMD option \<Rightarrow> delOptions option
     \<Rightarrow> (finalArgs \<times> event list) option" where
  "deleteOperation E authInfo' request' bucketMD objectMD' delOptions' =
     (let putMarker =
        (let args = \<lparr> ca_bucketName = bucketName request', ca_bucketMD = bucketMD,
                      ca_objectKey = objectKey request', ca_objMD = objectMD',
                      ca_authInfo = authInfo', ca_canonicalID = getCanonicalID authInfo',
                      ca_seventh = JNull, ca_request = request',
                      ca_isDeleteMarker = True, ca_tenth = JNull \<rparr>;
             deleteInfo' = \<lparr> removeDeleteMarker = False, newDeleteMarker = True \<rparr>
         in Some (case createAndStoreObject E args of
                    Inl err \<Rightarrow> (Some (Err err), Some bucketMD, objectMD', None, Some deleteInfo')
                  | Inr newDelMarkerRes \<Rightarrow>
                      (None, Some bucketMD, objectMD', Some newDelMarkerRes, Some deleteInfo'),
                  [CreateAndStoreObject args]))
      in case delOptions' of
           None \<Rightarrow> putMarker
         | Some opts \<Rightarrow>
             if deleteData opts then
               (case objectMD' of
                  None \<Rightarrow> None
                | Some md \<Rightarrow>
                    (let deleteInfo' = \<lparr> removeDeleteMarker = isDeleteMarker md,
                                         newDeleteMarker = False \<rparr>
                     in Some ((map_option Err
                                 (services_deleteObject E (bucketName request') md
                                    (objectKey request') opts),
                               Some bucketMD, objectMD', None, Some deleteInfo'),
                              [DeleteObject (bucketName request') md (objectKey request') opts])))
             else putMarker)"

text \<open>
  The final callback. \<open>result\<close> is read only after a new delete marker, so the
  \<open>delResult\<close> of a deletion is not kept. A property read on \<open>undefined\<close> is a
  TypeError, raised before the metric is pushed.
\<close>

definition finalCallback ::
  "env \<Rightarrow> authInfo \<Rightarrow> request \<Rightarrow> string option \<Rightarrow> finalArgs \<Rightarrow> outcome \<times> event list" where
  "finalCallback E authInfo' request' reqVersionId args =
     (case args of (err, bucketMD, objectMD', result, deleteInfo') \<Rightarrow>
      (let resHeaders =
             collectCorsHeaders E (headers_origin request') (req_method request') bucketMD
       in case err of
            Some SkipError \<Rightarrow> (Callback None (Some resHeaders), [])
          | Some (Err e) \<Rightarrow> (Callback (Some e) (Some resHeaders), [])
          | None \<Rightarrow>
              (case deleteInfo' of
                 None \<Rightarrow> (TypeErrorThrown, [])
               | Some di \<Rightarrow>
                   if newDeleteMarker di then
                     (case result of
                        None \<Rightarrow> (TypeErrorThrown, [])
                      | Some res \<Rightarrow>
                          (Callback None
                             (Some (case versionId res of
                                      None \<Rightarrow> resHeaders
                                    | Some v \<Rightarrow>
                                        if v \<noteq> [] then
                                          resHeaders
                                            (''x-amz-delete-marker'' \<mapsto> HBool True,
                                             ''x-amz-version-id'' \<mapsto>
                                               HString (if v = ''null'' then v
                                                        else versionIdUtils_encode E v))
                                        else resHeaders)),
                           [PushMetric ''putObject''
                              \<lparr> mp_authInfo = authInfo', mp_bucket = bucketName request',
                                newByteLength = Some 0, oldByteLength = Some 0,
                                byteLength = None, numberOfObjects = None \<rparr>]))
                   else
                     (let resHeaders' =
                        (case reqVersionId of
                           None \<Rightarrow> resHeaders
                         | Some v \<Rightarrow>
                             if v \<noteq> [] then
                               (let h = resHeaders
                                          (''x-amz-version-id'' \<mapsto>
                                             HString (if v = ''null'' then v
                                                      else versionIdUtils_encode E v))
                                in if removeDeleteMarker di
                                   then h(''x-amz-delete-marker'' \<mapsto> HBool True)
                                   else h)
                             else resHeaders)
                      in case objectMD' of
                           None \<Rightarrow> (TypeErrorThrown, [])
                         | Some md \<Rightarrow>
                             (Callback None (Some resHeaders'),
                              [PushMetric ''deleteObject''
                                 \<lparr> mp_authInfo = authInfo', mp_bucket = bucketName request',
                                   newByteLength = None, oldByteLength = None,
                                   byteLength = content_length md,
                                   numberOfObjects = Some 1 \<rparr>])))))"

text \<open>
  \<open>async.waterfall\<close>: the tasks run in order, each on what the one before passed on;
  the first error, or the end of the last task, goes to the final callback.
\<close>

definition waterfall ::
  "env \<Rightarrow> authInfo \<Rightarrow> request \<Rightarrow> valParams \<Rightarrow> string option \<Rightarrow> outcome \<times> event list" where
  "waterfall E authInfo' request' valParams reqVersionId =
     (case validateBucketAndObj E valParams reqVersionId of
        (Inl (err, bucketMD), ev1) \<Rightarrow>
          (case finalCallback E authInfo' request' reqVersionId
                  (Some err, bucketMD, None, None, None) of
             (out, ev) \<Rightarrow> (out, ev1 @ ev))
      | (Inr (bucketMD, objMD), ev1) \<Rightarrow>
          (case getVersioningInfo E (bucketName request') reqVersionId bucketMD objMD of
             (Inl (err, bucketMD'), ev2) \<Rightarrow>
               (case finalCallback E authInfo' request' reqVersionId
                       (Some err, bucketMD', None, None, None) of
                  (out, ev) \<Rightarrow> (out, ev1 @ ev2 @ ev))
           | (Inr (bucketMD', objectMD', delOptions'), ev2) \<Rightarrow>
               (case deleteOperation E authInfo' request' bucketMD' objectMD' delOptions' of
                  None \<Rightarrow> (TypeErrorThrown, ev1 @ ev2)
                | Some (args, ev3) \<Rightarrow>
                    (case finalCallback E authInfo' request' reqVersionId args of
                       (out, ev) \<Rightarrow> (out, ev1 @ ev2 @ ev3 @ ev)))))"

text \<open>
  The handler: how it ends, and the calls and metrics it made on the way. After a decode
  failure the arguments of the trace line are evaluated before the callback, among them
  \<open>request.query.versionId\<close>: for a request without query object that read is a
  TypeError, and the callback is never reached.
\<close>

definition objectDelete :: "env \<Rightarrow> authInfo \<Rightarrow> request \<Rightarrow> outcome \<times> event list" where
  "objectDelete E authInfo' request' =
     (if isRequesterPublicUser authInfo' then (Callback (Some (errors AccessDenied)) None, [])
      else
        case decodeVersionId E (query request') of
          Inl decodedVidResult \<Rightarrow>
            (case query request' of
               None \<Rightarrow> (TypeErrorThrown, [])
             | Some q \<Rightarrow> (Callback (Some decodedVidResult) None, []))
        | Inr reqVersionId \<Rightarrow>
            waterfall E authInfo' request'
              \<lparr> vp_authInfo = authInfo', vp_bucketName = bucketName request',
                vp_objectKey = objectKey request', vp_versionId = reqVersionId,
                vp_requestType = ''objectDelete'' \<rparr>
              reqVersionId)"

section \<open>The delete preprocessing engine\<close>

text \<open>
  Modelled from the spec: the outcomes of the delete preprocessing engine (section 4.4;
  preprocessingVersioningDelete of lib/api/apiUtils/object/versioning.js is missing):
  delete options, the skip outcome, or an error.
\<close>

datatype preprocessOutcome = Options delOptions | SkipOutcome | Failure error

text \<open>
  Modelled from the spec: the decision table of the delete preprocessing engine
  (section 4.4; preprocessingVersioningDelete is missing), row by row, from the versioning
  configuration of the bucket, the object metadata and the requested version id. A
  version id is present when it is a string that is not empty, which is the test the
  handler applies to it.
  \<^item> no versioning, object found: physical delete, \<open>deleteData = true\<close>;
  \<^item> no versioning, object not found: NoSuchKey;
  \<^item> Enabled or Suspended, no version id, object found (marker or not) or not found:
    a new delete marker, \<open>deleteData = false\<close>;
  \<^item> Enabled or Suspended, version id present, object found: physical delete of that
    version or marker, \<open>deleteData = true\<close> with the version id as target;
  \<^item> Enabled or Suspended, version id present, object not found: skip.
\<close>

definition preprocess ::
  "versioningStatus option \<Rightarrow> objectMD option \<Rightarrow> string option \<Rightarrow> preprocessOutcome" where
  "preprocess cfg md rv =
     (case cfg of
        None \<Rightarrow>
          (case md of
             Some _ \<Rightarrow> Options \<lparr> deleteData = True, opt_versionId = None \<rparr>
           | None \<Rightarrow> Failure (errors NoSuchKey))
      | Some _ \<Rightarrow>
          if truthy rv then
            (case md of
               Some _ \<Rightarrow> Options \<lparr> deleteData = True, opt_versionId = rv \<rparr>
             | None \<Rightarrow> SkipOutcome)
          else Options \<lparr> deleteData = False, opt_versionId = None \<rparr>)"

text \<open>
  Modelled from the spec: how the collaborator of the handler answers with an outcome of
  the table (section 4.4; preprocessingVersioningDelete is missing): the options or the
  error go to its callback; the skip outcome is the handler's own and has no answer.
\<close>

fun answersWith :: "preprocessOutcome \<Rightarrow> error + delOptions option \<Rightarrow> bool" where
  "answersWith (Options opts) (Inr (Some opts')) = (opts' = opts)"
| "answersWith (Failure e) (Inl e') = (e' = e)"
| "answersWith _ _ = False"

section \<open>The Get orchestrator\<close>

text \<open>
  The handler of GET and the codec of version identifiers are not among the sources; the
  functional test of the handler is (get a delete marker, get an object that has been
  deleted). Both are written down here from the specification, the codec's two functions
  as parameters.
\<close>

text \<open>
  Modelled from the spec: the version identifier codec of section 4.1, which is arsenal's
  and missing: \<open>encode\<close> is total, \<open>decode\<close> gives the internal key or fails
  (\<open>None\<close>, the decode error).
\<close>

record codec =
  encode :: "string \<Rightarrow> string"
  decode :: "string \<Rightarrow> string option"

text \<open>
  Modelled from the spec: the token echoed for a version id (section 4.1; the function
  that wraps the codec is missing). The literal "null" is reserved, bypasses the codec and
  is passed through verbatim.
\<close>

definition encodeToken :: "codec \<Rightarrow> string \<Rightarrow> string" where
  "encodeToken c k = (if k = ''null'' then ''null'' else encode c k)"

text \<open>
  Modelled from the spec: the version id of a requested token (section 4.1; the function
  that wraps the codec is missing). The literal "null" is passed through verbatim in this
  direction too; any other token goes through \<open>decode\<close>.
\<close>

definition decodeToken :: "codec \<Rightarrow> string \<Rightarrow> string option" where
  "decodeToken c t = (if t = ''null'' then Some ''null'' else decode c t)"

text \<open>
  Modelled from the spec: a version as the metadata layer resolves it (section 3; the
  metadata layer is missing), with its internal key, its content and the delete-marker
  flag.
\<close>

record version =
  v_key :: string
  v_content :: string
  v_isDeleteMarker :: bool

text \<open>
  Modelled from the spec: the Get orchestrator objectGet (sections 4.3 and 4.6; the
  handler lib/api/objectGet.js is missing). The metadata layer \<open>resolve\<close> looks up the
  version of the decoded id, or the current version when the request has no version id.
  \<^item> explicit version id resolving to a delete marker: MethodNotAllowed;
  \<^item> explicit version id resolving to a missing version: NoSuchKey;
  \<^item> no version id, the current version is a delete marker: NoSuchKey;
  \<^item> no version id, the current version is ordinary: its content and its encoded
    version id;
  \<^item> explicit version id resolving to an ordinary version: its content and that
    version id, encoded again.
  A token that does not decode fails with the decode error; a request without version id
  for a key with no version at all is the resolution failure NoSuchKey of section 7.
  The result is the error, or the content with the echoed version id.
\<close>

definition objectGet ::
  "codec \<Rightarrow> (string option \<Rightarrow> version option) \<Rightarrow> string option \<Rightarrow> error + (string \<times> string)" where
  "objectGet c resolve token =
     (case token of
        None \<Rightarrow>
          (case resolve None of
             None \<Rightarrow> Inl (errors NoSuchKey)
           | Some v \<Rightarrow>
               if v_isDeleteMarker v then Inl (errors NoSuchKey)
               else Inr (v_content v, encodeToken c (v_key v)))
      | Some t \<Rightarrow>
          (case decodeToken c t of
             None \<Rightarrow> Inl (errors (OtherError ''DecodeError''))
           | Some k \<Rightarrow>
               (case resolve (Some k) of
                  None \<Rightarrow> Inl (errors NoSuchKey)
                | Some v \<Rightarrow>
                    if v_isDeleteMarker v then Inl (errors MethodNotAllowed)
                    else Inr (v_content v, encodeToken c k))))"

section \<open>Vocabulary of the properties\<close>

text \<open>
  The validation parameters the handler builds for a request, the CORS headers of a
  request, and the bucket metadata that the metadata layer handed back (with or without
  an error), which is the one every task passes on to the final callback.
\<close>

abbreviation valParamsOf :: "authInfo \<Rightarrow> request \<Rightarrow> string option \<Rightarrow> valParams" where
  "valParamsOf a r rv \<equiv>
     \<lparr> vp_authInfo = a, vp_bucketName = bucketName r, vp_objectKey = objectKey r,
       vp_versionId = rv, vp_requestType = ''objectDelete'' \<rparr>"

abbreviation corsOf :: "env \<Rightarrow> request \<Rightarrow> bucketInfo option \<Rightarrow> headers" where
  "corsOf E r b \<equiv> collectCorsHeaders E (headers_origin r) (req_method r) b"

definition bucketOfLookup ::
  "(error \<times> bucketInfo option) + (bucketInfo \<times> objectMD option) \<Rightarrow> bucketInfo option" where
  "bucketOfLookup res = (case res of Inl (e, b) \<Rightarrow> b | Inr (b, md) \<Rightarrow> Some b)"

text \<open>\<open>delOptions && delOptions.deleteData\<close>: the options ask for a physical deletion.\<close>

definition deletesData :: "delOptions option \<Rightarrow> bool" where
  "deletesData opts = (case opts of None \<Rightarrow> False | Some x \<Rightarrow> deleteData x)"

text \<open>
  The one way the waterfall ends without reaching its final callback: the object
  metadata is missing, the first task lets the request through (versioning configured,
  no version id) and the options ask for a physical deletion, so that the third task
  reads \<open>isDeleteMarker\<close> of \<open>undefined\<close>.
\<close>

definition readsMissingObject :: "env \<Rightarrow> authInfo \<Rightarrow> request \<Rightarrow> string option \<Rightarrow> bool" where
  "readsMissingObject E a r rv =
     (case metadataValidateBucketAndObj E (valParamsOf a r rv) of
        Inl _ \<Rightarrow> False
      | Inr (b, Some _) \<Rightarrow> False
      | Inr (b, None) \<Rightarrow>
          getVersioningConfiguration b \<noteq> None \<and> \<not> truthy rv
          \<and> (case preprocessingVersioningDelete E (bucketName r) b None rv of
                Inl _ \<Rightarrow> False
              | Inr opts \<Rightarrow> deletesData opts))"

text \<open>The header of a response, when the handler called back with headers.\<close>

fun responseHeader :: "outcome \<Rightarrow> string \<Rightarrow> hval option" where
  "responseHeader (Callback e (Some h)) k = h k"
| "responseHeader (Callback e None) k = None"
| "responseHeader TypeErrorThrown k = None"

fun succeeded :: "outcome \<Rightarrow> bool" where
  "succeeded (Callback e h) = (e = None)"
| "succeeded TypeErrorThrown = False"

section \<open>Concrete requests and collaborators\<close>

text \<open>
  An environment whose collaborators answer with fixed values, whatever they are asked;
  its encoder puts an \<open>x\<close> in front of the id.
\<close>

definition exCors :: headers where
  "exCors = [''access-control-allow-origin'' \<mapsto> HString ''*'']"

definition constEnv ::
  "error + string option \<Rightarrow> (error \<times> bucketInfo option) + (bucketInfo \<times> objectMD option)
     \<Rightarrow> error + delOptions option \<Rightarrow> error option \<Rightarrow> error + storeResult \<Rightarrow> env" where
  "constEnv dec look prep del cre =
     \<lparr> decodeVersionId = (\<lambda>_. dec),
       metadataValidateBucketAndObj = (\<lambda>_. look),
       preprocessingVersioningDelete = (\<lambda>_ _ _ _. prep),
       services_deleteObject = (\<lambda>_ _ _ _. del),
       createAndStoreObject = (\<lambda>_. cre),
       collectCorsHeaders = (\<lambda>_ _ _. exCors),
       versionIdUtils_encode = (\<lambda>v. CHR ''x'' # v) \<rparr>"

definition exUser :: authInfo where
  "exUser = \<lparr> isRequesterPublicUser = False, getCanonicalID = ''id1'' \<rparr>"

definition exPublic :: authInfo where
  "exPublic = \<lparr> isRequesterPublicUser = True, getCanonicalID = ''anonymous'' \<rparr>"

definition exRequest :: request where
  "exRequest = \<lparr> bucketName = ''bucket'', objectKey = ''objectKey'', query = None,
                 headers_origin = None, req_method = ''DELETE'' \<rparr>"

definition exTokenRequest :: "string \<Rightarrow> request" where
  "exTokenRequest t = \<lparr> bucketName = ''bucket'', objectKey = ''objectKey'',
                        query = Some [''versionId'' \<mapsto> JString t],
                        headers_origin = None, req_method = ''DELETE'' \<rparr>"

definition exBucket :: "versioningStatus option \<Rightarrow> bucketInfo" where
  "exBucket cfg = \<lparr> getName = ''bucket'', getVersioningConfiguration = cfg \<rparr>"

definition exObject :: "bool \<Rightarrow> objectMD" where
  "exObject marker = \<lparr> content_length = Some 5, isDeleteMarker = marker,
                        md_versionId = None \<rparr>"

definition exMarker :: delOptions where
  "exMarker = \<lparr> deleteData = False, opt_versionId = None \<rparr>"

definition exDelete :: "string option \<Rightarrow> delOptions" where
  "exDelete v = \<lparr> deleteData = True, opt_versionId = v \<rparr>"

definition exCodec :: codec where
  "exCodec = \<lparr> encode = (\<lambda>k. CHR ''x'' # k),
               decode = (\<lambda>t. case t of [] \<Rightarrow> None
                               | c # k \<Rightarrow> if c = CHR ''x'' then Some k else None) \<rparr>"

definition exResolve :: "version \<Rightarrow> string option \<Rightarrow> version option" where
  "exResolve v k = (if k = None \<or> k = Some (v_key v) then Some v else None)"

section \<open>Properties of checkQueryVersionId\<close>

text \<open>
  Claim C6. For every query object, checkQueryVersionId returns the InvalidArgument error
  customised with the message "This operation does not accept a version-id." exactly when
  the query exists and reading its versionId key gives a value other than undefined, the
  empty string included; in every other case it returns undefined.
\<close>

theorem checkQueryVersionId_rejects_iff:
  "checkQueryVersionId query' =
     (if (\<exists>q v. query' = Some q \<and> q ''versionId'' = Some v \<and> v \<noteq> JUndefined)
      then Some (ArsenalError InvalidArgument
                   (Some ''This operation does not accept a version-id.''))
      else None)
   \<and> checkQueryVersionId (Some [''versionId'' \<mapsto> JString '''']) =
       Some (ArsenalError InvalidArgument
               (Some ''This operation does not accept a version-id.''))
   \<and> checkQueryVersionId (Some Map.empty) = None
   \<and> checkQueryVersionId (Some [''versionId'' \<mapsto> JUndefined]) = None
   \<and> checkQueryVersionId None = None"
  by (auto simp: checkQueryVersionId_def getProp_def customizeDescription_def errors_def
           split: option.splits)

section \<open>Properties of objectDelete\<close>

lemmas od_defs = objectDelete_def waterfall_def validateBucketAndObj_def
  getVersioningInfo_def deleteOperation_def finalCallback_def

lemmas ex_defs = constEnv_def exUser_def exPublic_def exRequest_def exBucket_def
  exObject_def exDelete_def exMarker_def exCors_def

text \<open>The only answer that agrees with options of the table is those options.\<close>

lemma answersWith_Options: "answersWith (Options opts) ans \<longleftrightarrow> ans = Inr (Some opts)"
  by (cases "(Options opts, ans)" rule: answersWith.cases) auto

subsection \<open>The early exits and the validation stage\<close>

text \<open>
  Claim C7. The validation of objectDelete fails with AccessDenied when the requester is
  the public user, before any metadata lookup or mutation (no call is made); it fails with
  NoSuchKey when the lookup finds no object metadata and the bucket has no versioning
  configuration; and an error of the metadata layer reaches the caller unchanged. In the
  last two cases the lookup is the only call made.
\<close>

theorem objectDelete_validation_errors:
  "(isRequesterPublicUser a \<longrightarrow>
      objectDelete E a r = (Callback (Some (errors AccessDenied)) None, []))
   \<and> (\<not> isRequesterPublicUser a \<and> decodeVersionId E (query r) = Inr rv
        \<and> metadataValidateBucketAndObj E (valParamsOf a r rv) = Inr (b, None)
        \<and> getVersioningConfiguration b = None \<longrightarrow>
      objectDelete E a r =
        (Callback (Some (errors NoSuchKey)) (Some (corsOf E r (Some b))),
         [MetadataValidateBucketAndObj (valParamsOf a r rv)]))
   \<and> (\<not> isRequesterPublicUser a \<and> decodeVersionId E (query r) = Inr rv
        \<and> metadataValidateBucketAndObj E (valParamsOf a r rv) = Inl (e, b') \<longrightarrow>
      objectDelete E a r =
        (Callback (Some e) (Some (corsOf E r b')),
         [MetadataValidateBucketAndObj (valParamsOf a r rv)]))"
  by (simp add: od_defs)

theorem objectDelete_validation_errors_witness:
  "objectDelete (constEnv (Inr None) (Inr (exBucket None, None)) (Inr None) None
                   (Inr \<lparr> versionId = None \<rparr>)) exPublic exRequest
     = (Callback (Some (errors AccessDenied)) None, [])
   \<and> objectDelete (constEnv (Inr None) (Inr (exBucket None, None)) (Inr None) None
                   (Inr \<lparr> versionId = None \<rparr>)) exUser exRequest
     = (Callback (Some (errors NoSuchKey)) (Some exCors),
        [MetadataValidateBucketAndObj (valParamsOf exUser exRequest None)])
   \<and> objectDelete (constEnv (Inr None) (Inl (errors (OtherError ''InternalError''), None))
                   (Inr None) None (Inr \<lparr> versionId = None \<rparr>)) exUser exRequest
     = (Callback (Some (errors (OtherError ''InternalError''))) (Some exCors),
        [MetadataValidateBucketAndObj (valParamsOf exUser exRequest None)])"
  using
    objectDelete_validation_errors [of exPublic
      "constEnv (Inr None) (Inr (exBucket None, None)) (Inr None) None
         (Inr \<lparr> versionId = None \<rparr>)" exRequest None "exBucket None" "errors NoSuchKey" None]
    objectDelete_validation_errors [of exUser
      "constEnv (Inr None) (Inr (exBucket None, None)) (Inr None) None
         (Inr \<lparr> versionId = None \<rparr>)" exRequest None "exBucket None" "errors NoSuchKey" None]
    objectDelete_validation_errors [of exUser
      "constEnv (Inr None) (Inl (errors (OtherError ''InternalError''), None))
         (Inr None) None (Inr \<lparr> versionId = None \<rparr>)" exRequest None "exBucket None"
      "errors (OtherError ''InternalError'')" None]
  by (simp add: ex_defs)

text \<open>
  Claim C8. When the query of the request carries a version id that fails to decode,
  objectDelete makes no call at all: no metadata validation, no mutation, and the token
  reaches no storage lookup. The requester having passed the public-user check that
  precedes the decoding, the handler calls back at once with the decode error itself,
  without response headers.
\<close>

theorem objectDelete_decode_failure:
  assumes "decodeVersionId E (query r) = Inl e"
      and "query r = Some q"
  shows "snd (objectDelete E a r) = []
         \<and> (\<not> isRequesterPublicUser a \<longrightarrow>
              objectDelete E a r = (Callback (Some e) None, []))"
  using assms by (simp add: objectDelete_def)

theorem objectDelete_decode_failure_witness:
  "objectDelete
     (constEnv (Inl (customizeDescription (errors InvalidArgument)
                       ''Invalid version id specified''))
        (Inr (exBucket (Some Enabled), Some (exObject False))) (Inr (Some (exDelete None)))
        None (Inr \<lparr> versionId = None \<rparr>)) exUser (exTokenRequest ''zz'')
     = (Callback (Some (ArsenalError InvalidArgument (Some ''Invalid version id specified'')))
          None, [])"
  using objectDelete_decode_failure [of
      "constEnv (Inl (customizeDescription (errors InvalidArgument)
                        ''Invalid version id specified''))
         (Inr (exBucket (Some Enabled), Some (exObject False))) (Inr (Some (exDelete None)))
         None (Inr \<lparr> versionId = None \<rparr>)" "exTokenRequest ''zz''"
      "customizeDescription (errors InvalidArgument) ''Invalid version id specified''"
      "[''versionId'' \<mapsto> JString ''zz'']" exUser]
  by (simp add: ex_defs exTokenRequest_def customizeDescription_def errors_def)

subsection \<open>The skip outcome\<close>

text \<open>
  Claim C2. For a DELETE request that names an explicit version id on a bucket whose
  versioning configuration exists, when the lookup finds no object metadata the handler
  ends as a success: the callback gets no error (the skip sentinel is not handed on) and
  exactly the CORS headers; the metadata lookup is the only call, so nothing is stored or
  deleted and no metric is pushed.
\<close>

theorem objectDelete_skip:
  assumes "\<not> isRequesterPublicUser a"
      and "decodeVersionId E (query r) = Inr rv"
      and "truthy rv"
      and "metadataValidateBucketAndObj E (valParamsOf a r rv) = Inr (b, None)"
      and "getVersioningConfiguration b \<noteq> None"
  shows "objectDelete E a r =
           (Callback None (Some (corsOf E r (Some b))),
            [MetadataValidateBucketAndObj (valParamsOf a r rv)])"
  using assms by (simp add: od_defs)

theorem objectDelete_skip_witness:
  "objectDelete
     (constEnv (Inr (Some ''v1'')) (Inr (exBucket (Some Suspended), None))
        (Inr (Some (exDelete (Some ''v1'')))) None (Inr \<lparr> versionId = Some ''v2'' \<rparr>))
     exUser exRequest
     = (Callback None (Some exCors),
        [MetadataValidateBucketAndObj (valParamsOf exUser exRequest (Some ''v1''))])"
  using objectDelete_skip [of exUser
      "constEnv (Inr (Some ''v1'')) (Inr (exBucket (Some Suspended), None))
         (Inr (Some (exDelete (Some ''v1'')))) None (Inr \<lparr> versionId = Some ''v2'' \<rparr>)"
      exRequest "Some ''v1''" "exBucket (Some Suspended)"]
  by (simp add: ex_defs truthy_def)

subsection \<open>A new delete marker\<close>

text \<open>
  Claim C1. For a DELETE request on a bucket whose versioning configuration exists and
  that carries no explicit version id, object metadata found or not, the preprocessing
  answering as the decision table of section 4.4 says, objectDelete creates a delete
  marker through the object-creation path: it calls createAndStoreObject with the
  delete-marker flag set and null in the seventh and tenth places. When that call
  succeeds, its result carrying the version id of the new marker as the contract of
  section 6 says, the response has x-amz-delete-marker = true and x-amz-version-id = the
  encoded id, or the literal "null" unencoded when the id is "null", and the handler
  pushes a putObject metric with newByteLength 0 and oldByteLength 0.
\<close>

theorem objectDelete_new_delete_marker:
  assumes "\<not> isRequesterPublicUser a"
      and "decodeVersionId E (query r) = Inr rv"
      and "\<not> truthy rv"
      and "metadataValidateBucketAndObj E (valParamsOf a r rv) = Inr (b, md)"
      and "getVersioningConfiguration b \<noteq> None"
      and "answersWith (preprocess (getVersioningConfiguration b) md rv)
             (preprocessingVersioningDelete E (bucketName r) b md rv)"
      and "args = \<lparr> ca_bucketName = bucketName r, ca_bucketMD = b,
                     ca_objectKey = objectKey r, ca_objMD = md, ca_authInfo = a,
                     ca_canonicalID = getCanonicalID a, ca_seventh = JNull,
                     ca_request = r, ca_isDeleteMarker = True, ca_tenth = JNull \<rparr>"
      and "createAndStoreObject E args = Inr res"
      and "versionId res = Some v"
      and "v \<noteq> []"
  shows "objectDelete E a r =
           (Callback None
              (Some ((corsOf E r (Some b))
                       (''x-amz-delete-marker'' \<mapsto> HBool True,
                        ''x-amz-version-id'' \<mapsto>
                          HString (if v = ''null'' then ''null''
                                   else versionIdUtils_encode E v)))),
            [MetadataValidateBucketAndObj (valParamsOf a r rv),
             PreprocessingVersioningDelete (bucketName r) b md rv,
             CreateAndStoreObject args,
             PushMetric ''putObject''
               \<lparr> mp_authInfo = a, mp_bucket = bucketName r,
                 newByteLength = Some 0, oldByteLength = Some 0,
                 byteLength = None, numberOfObjects = None \<rparr>])"
proof -
  from assms(3,5) have
    "preprocess (getVersioningConfiguration b) md rv =
       Options \<lparr> deleteData = False, opt_versionId = None \<rparr>"
    by (auto simp: preprocess_def split: option.splits)
  with assms(6) have
    "preprocessingVersioningDelete E (bucketName r) b md rv =
       Inr (Some \<lparr> deleteData = False, opt_versionId = None \<rparr>)"
    by (simp add: answersWith_Options)
  with assms(1,2,3,4,5,7,8,9,10) show ?thesis
    by (cases md) (auto simp: od_defs)
qed

text \<open>
  A delete of a key that was never created, on a bucket with versioning enabled: the
  marker gets the id \<open>v7\<close>, and the response carries both headers.
\<close>

theorem objectDelete_new_delete_marker_witness:
  "objectDelete
     (constEnv (Inr None) (Inr (exBucket (Some Enabled), None))
        (Inr (Some exMarker)) None
        (Inr \<lparr> versionId = Some ''v7'' \<rparr>)) exUser exRequest
     = (Callback None
          (Some (exCors (''x-amz-delete-marker'' \<mapsto> HBool True,
                         ''x-amz-version-id'' \<mapsto> HString ''xv7''))),
        [MetadataValidateBucketAndObj (valParamsOf exUser exRequest None),
         PreprocessingVersioningDelete ''bucket'' (exBucket (Some Enabled)) None None,
         CreateAndStoreObject
           \<lparr> ca_bucketName = ''bucket'', ca_bucketMD = exBucket (Some Enabled),
             ca_objectKey = ''objectKey'', ca_objMD = None, ca_authInfo = exUser,
             ca_canonicalID = ''id1'', ca_seventh = JNull, ca_request = exRequest,
             ca_isDeleteMarker = True, ca_tenth = JNull \<rparr>,
         PushMetric ''putObject''
           \<lparr> mp_authInfo = exUser, mp_bucket = ''bucket'',
             newByteLength = Some 0, oldByteLength = Some 0,
             byteLength = None, numberOfObjects = None \<rparr>])"
  using objectDelete_new_delete_marker [of exUser
      "constEnv (Inr None) (Inr (exBucket (Some Enabled), None))
         (Inr (Some exMarker)) None
         (Inr \<lparr> versionId = Some ''v7'' \<rparr>)"
      exRequest None "exBucket (Some Enabled)" None _
      "\<lparr> versionId = Some ''v7'' \<rparr>" "''v7''"]
  by (simp add: ex_defs truthy_def preprocess_def)

subsection \<open>A physical deletion\<close>



subsection \<open>The response headers\<close>

text \<open>
  Claim C9, as amended. In every successful objectDelete response the version headers are
  conditional. After creating a delete marker, x-amz-delete-marker and x-amz-version-id
  are set only if the creation result contains a version id: without one the response
  headers are the CORS headers as computed. After a physical deletion, x-amz-version-id
  (and x-amz-delete-marker when a marker was removed) are set only if the request carried
  an explicit version id: so a physical deletion whose request carries no version id
  succeeds with the CORS headers as computed, neither header added, whatever the
  versioning configuration of the bucket.
\<close>

theorem objectDelete_version_headers_only_if:
  assumes "objectDelete E a r = (Callback None (Some h), evs)"
      and "decodeVersionId E (query r) = Inr rv"
      and "C = corsOf E r (bucketOfLookup
                 (metadataValidateBucketAndObj E (valParamsOf a r rv)))"
  shows "(\<forall>args res. CreateAndStoreObject args \<in> set evs
                     \<and> createAndStoreObject E args = Inr res
                     \<and> \<not> truthy (versionId res) \<longrightarrow> h = C)
       \<and> (\<forall>n md k opts. DeleteObject n md k opts \<in> set evs \<and> \<not> truthy rv \<longrightarrow> h = C)"
  using assms
  by (auto simp: od_defs bucketOfLookup_def Let_def truthy_def
           split: sum.splits option.splits prod.splits if_splits wfError.splits)

text \<open>
  An object of a bucket without versioning is deleted by a request without version id:
  the response has the CORS headers and nothing else.
\<close>

theorem objectDelete_version_headers_only_if_witness:
  "objectDelete
     (constEnv (Inr None) (Inr (exBucket None, Some (exObject False)))
        (Inr (Some (exDelete None))) None (Inr \<lparr> versionId = None \<rparr>))
     exUser exRequest
     = (Callback None (Some exCors),
        [MetadataValidateBucketAndObj (valParamsOf exUser exRequest None),
         PreprocessingVersioningDelete ''bucket'' (exBucket None)
           (Some (exObject False)) None,
         DeleteObject ''bucket'' (exObject False) ''objectKey'' (exDelete None),
         PushMetric ''deleteObject''
           \<lparr> mp_authInfo = exUser, mp_bucket = ''bucket'',
             newByteLength = None, oldByteLength = None,
             byteLength = Some 5, numberOfObjects = Some 1 \<rparr>])
   \<and> \<not> truthy None
   \<and> responseHeader (Callback None (Some exCors)) ''x-amz-version-id'' = None
   \<and> responseHeader (Callback None (Some exCors)) ''x-amz-delete-marker'' = None"
  using objectDelete_version_headers_only_if [of
      "constEnv (Inr None) (Inr (exBucket None, Some (exObject False)))
         (Inr (Some (exDelete None))) None (Inr \<lparr> versionId = None \<rparr>)"
      exUser exRequest exCors
      "[MetadataValidateBucketAndObj (valParamsOf exUser exRequest None),
        PreprocessingVersioningDelete ''bucket'' (exBucket None)
          (Some (exObject False)) None,
        DeleteObject ''bucket'' (exObject False) ''objectKey'' (exDelete None),
        PushMetric ''deleteObject''
          \<lparr> mp_authInfo = exUser, mp_bucket = ''bucket'',
            newByteLength = None, oldByteLength = None,
            byteLength = Some 5, numberOfObjects = Some 1 \<rparr>]"
      None exCors]
  by (simp add: od_defs ex_defs truthy_def bucketOfLookup_def)

text \<open>
  Claim C9 as it was stated fails in its last clause: on a bucket with no versioning
  configuration, a request that names the version id "null" and whose object is found
  ends in a physical deletion that succeeds with x-amz-version-id = "null" in the
  response.
\<close>

theorem objectDelete_version_headers_only_if_counterexample:
  "getVersioningConfiguration (exBucket None) = None
   \<and> succeeded (fst (objectDelete
       (constEnv (Inr (Some ''null'')) (Inr (exBucket None, Some (exObject False)))
          (Inr (Some (exDelete None))) None (Inr \<lparr> versionId = None \<rparr>))
       exUser exRequest))
   \<and> DeleteObject ''bucket'' (exObject False) ''objectKey'' (exDelete None)
       \<in> set (snd (objectDelete
            (constEnv (Inr (Some ''null'')) (Inr (exBucket None, Some (exObject False)))
               (Inr (Some (exDelete None))) None (Inr \<lparr> versionId = None \<rparr>))
            exUser exRequest))
   \<and> responseHeader (fst (objectDelete
       (constEnv (Inr (Some ''null'')) (Inr (exBucket None, Some (exObject False)))
          (Inr (Some (exDelete None))) None (Inr \<lparr> versionId = None \<rparr>))
       exUser exRequest)) ''x-amz-version-id'' = Some (HString ''null'')"
  by (simp add: od_defs ex_defs)

text \<open>
  The final callback calls back with the CORS headers, the two version headers apart,
  whenever it is given an error, or the record of a new delete marker with its result, or
  the record of a deletion with the object metadata.
\<close>

lemma finalCallback_calls_back:
  assumes "err \<noteq> None \<or> (\<exists>d. di = Some d \<and> (newDeleteMarker d \<longrightarrow> res \<noteq> None)
                                \<and> (\<not> newDeleteMarker d \<longrightarrow> omd \<noteq> None))"
  shows "\<exists>e h. fst (finalCallback E a r rv (err, bmd, omd, res, di)) = Callback e (Some h)
           \<and> (\<forall>k. k \<noteq> ''x-amz-delete-marker'' \<and> k \<noteq> ''x-amz-version-id'' \<longrightarrow>
                  h k = corsOf E r bmd k)"
  using assms
  by (auto simp: finalCallback_def Let_def split: option.splits wfError.splits)

text \<open>
  Claim C10. Every completion of objectDelete, on every input. After the public-user
  check failed the callback gets AccessDenied and no response headers, and after the
  version id of the query failed to decode it gets the decode error and no response
  headers. In every other case the waterfall reaches its final callback, whether the
  tasks ended in success, in the skip or in an error, and the callback gets response
  headers that hold the CORS headers computed from the origin and the method of the
  request and the bucket metadata of the lookup: every header other than
  x-amz-delete-marker and x-amz-version-id is as collectCorsHeaders gave it, and all of
  the CORS headers are there when these two names are not among them. The only runs
  without callback are the two TypeErrors: the trace line of a decode failure on a request
  without query object, and the deletion of an object whose metadata is missing.
\<close>

theorem objectDelete_cors_headers:
  "(isRequesterPublicUser a \<longrightarrow>
      objectDelete E a r = (Callback (Some (errors AccessDenied)) None, []))
   \<and> (\<forall>e q. \<not> isRequesterPublicUser a \<and> decodeVersionId E (query r) = Inl e
             \<and> query r = Some q \<longrightarrow>
          objectDelete E a r = (Callback (Some e) None, []))
   \<and> (\<forall>rv C. \<not> isRequesterPublicUser a \<and> decodeVersionId E (query r) = Inr rv
             \<and> \<not> readsMissingObject E a r rv
             \<and> C = corsOf E r (bucketOfLookup
                      (metadataValidateBucketAndObj E (valParamsOf a r rv))) \<longrightarrow>
          (\<exists>err h. fst (objectDelete E a r) = Callback err (Some h)
             \<and> (\<forall>k. k \<noteq> ''x-amz-delete-marker'' \<and> k \<noteq> ''x-amz-version-id'' \<longrightarrow>
                    h k = C k)
             \<and> (''x-amz-delete-marker'' \<notin> dom C \<and> ''x-amz-version-id'' \<notin> dom C \<longrightarrow>
                  C \<subseteq>\<^sub>m h)))
   \<and> (\<forall>e. \<not> isRequesterPublicUser a \<and> decodeVersionId E (query r) = Inl e
           \<and> query r = None \<longrightarrow>
          objectDelete E a r = (TypeErrorThrown, []))
   \<and> (\<forall>rv. \<not> isRequesterPublicUser a \<and> decodeVersionId E (query r) = Inr rv
            \<and> readsMissingObject E a r rv \<longrightarrow>
          fst (objectDelete E a r) = TypeErrorThrown)"
proof -
  have early: "objectDelete E a r = (Callback (Some (errors AccessDenied)) None, [])"
    if "isRequesterPublicUser a"
    using that by (simp add: objectDelete_def)
  have dec: "objectDelete E a r = (Callback (Some e) None, [])"
    if "\<not> isRequesterPublicUser a" "decodeVersionId E (query r) = Inl e" "query r = Some q"
    for e q
    using that by (simp add: objectDelete_def)
  have nodec: "objectDelete E a r = (TypeErrorThrown, [])"
    if "\<not> isRequesterPublicUser a" "decodeVersionId E (query r) = Inl e" "query r = None"
    for e
    using that by (simp add: objectDelete_def)
  have wf: "\<exists>err h. fst (objectDelete E a r) = Callback err (Some h)
              \<and> (\<forall>k. k \<noteq> ''x-amz-delete-marker'' \<and> k \<noteq> ''x-amz-version-id'' \<longrightarrow>
                     h k = C k)"
    if "\<not> isRequesterPublicUser a" "decodeVersionId E (query r) = Inr rv"
       "\<not> readsMissingObject E a r rv"
       "C = corsOf E r (bucketOfLookup
              (metadataValidateBucketAndObj E (valParamsOf a r rv)))" for rv C
    using that
    by (auto simp: objectDelete_def waterfall_def validateBucketAndObj_def
          getVersioningInfo_def deleteOperation_def bucketOfLookup_def
          readsMissingObject_def deletesData_def Let_def case_prod_beta
          split: sum.splits option.splits if_splits
          intro!: finalCallback_calls_back)
  have thrown: "fst (objectDelete E a r) = TypeErrorThrown"
    if "\<not> isRequesterPublicUser a" "decodeVersionId E (query r) = Inr rv"
       "readsMissingObject E a r rv" for rv
    using that
    by (auto simp: od_defs readsMissingObject_def deletesData_def
             split: sum.splits option.splits prod.splits if_splits)
  have le: "C \<subseteq>\<^sub>m h"
    if "\<forall>k. k \<noteq> ''x-amz-delete-marker'' \<and> k \<noteq> ''x-amz-version-id'' \<longrightarrow> h k = C k"
       "''x-amz-delete-marker'' \<notin> dom C" "''x-amz-version-id'' \<notin> dom C"
    for h C :: headers
    unfolding map_le_def
  proof
    fix k assume "k \<in> dom C"
    with that(2,3) have "k \<noteq> ''x-amz-delete-marker'' \<and> k \<noteq> ''x-amz-version-id''"
      by blast
    with that(1) show "C k = h k" by simp
  qed
  have full: "\<exists>err h. fst (objectDelete E a r) = Callback err (Some h)
                \<and> (\<forall>k. k \<noteq> ''x-amz-delete-marker'' \<and> k \<noteq> ''x-amz-version-id'' \<longrightarrow>
                       h k = C k)
                \<and> (''x-amz-delete-marker'' \<notin> dom C \<and> ''x-amz-version-id'' \<notin> dom C \<longrightarrow>
                     C \<subseteq>\<^sub>m h)"
    if "\<not> isRequesterPublicUser a \<and> decodeVersionId E (query r) = Inr rv
          \<and> \<not> readsMissingObject E a r rv
          \<and> C = corsOf E r (bucketOfLookup
                   (metadataValidateBucketAndObj E (valParamsOf a r rv)))" for rv C
  proof -
    from that obtain err h where h:
        "fst (objectDelete E a r) = Callback err (Some h)"
        "\<forall>k. k \<noteq> ''x-amz-delete-marker'' \<and> k \<noteq> ''x-amz-version-id'' \<longrightarrow> h k = C k"
      using wf [of rv C] by blast
    with le [of h C] show ?thesis by blast
  qed
  from early dec nodec thrown full show ?thesis by blast
qed

text \<open>
  One run of each kind: the public user, a token that does not decode, the skip, an error
  of the metadata layer, the removal of a delete marker, and a new delete marker.
\<close>

theorem objectDelete_cors_headers_witness:
  "objectDelete
     (constEnv (Inr None) (Inr (exBucket (Some Enabled), None)) (Inr (Some exMarker)) None
        (Inr \<lparr> versionId = Some ''v7'' \<rparr>)) exPublic exRequest
     = (Callback (Some (errors AccessDenied)) None, [])
   \<and> objectDelete
       (constEnv (Inl (errors InvalidArgument)) (Inr (exBucket (Some Enabled), None))
          (Inr (Some exMarker)) None (Inr \<lparr> versionId = Some ''v7'' \<rparr>))
       exUser (exTokenRequest ''zz'')
     = (Callback (Some (errors InvalidArgument)) None, [])
   \<and> fst (objectDelete
       (constEnv (Inr (Some ''v1'')) (Inr (exBucket (Some Suspended), None))
          (Inr (Some (exDelete (Some ''v1'')))) None (Inr \<lparr> versionId = Some ''v2'' \<rparr>))
       exUser exRequest)
     = Callback None (Some exCors)
   \<and> fst (objectDelete
       (constEnv (Inr None) (Inl (errors (OtherError ''InternalError''), None))
          (Inr None) None (Inr \<lparr> versionId = None \<rparr>)) exUser exRequest)
     = Callback (Some (errors (OtherError ''InternalError''))) (Some exCors)
   \<and> fst (objectDelete
       (constEnv (Inr (Some ''v3'')) (Inr (exBucket (Some Enabled), Some (exObject True)))
          (Inr (Some (exDelete (Some ''v3'')))) None (Inr \<lparr> versionId = None \<rparr>))
       exUser exRequest)
     = Callback None
         (Some (exCors (''x-amz-version-id'' \<mapsto> HString ''xv3'',
                        ''x-amz-delete-marker'' \<mapsto> HBool True)))
   \<and> fst (objectDelete
       (constEnv (Inr None) (Inr (exBucket (Some Enabled), None)) (Inr (Some exMarker)) None
          (Inr \<lparr> versionId = Some ''v7'' \<rparr>)) exUser exRequest)
     = Callback None
         (Some (exCors (''x-amz-delete-marker'' \<mapsto> HBool True,
                        ''x-amz-version-id'' \<mapsto> HString ''xv7'')))
   \<and> exCors \<subseteq>\<^sub>m exCors (''x-amz-delete-marker'' \<mapsto> HBool True,
                          ''x-amz-version-id'' \<mapsto> HString ''xv7'')"
  using
    objectDelete_cors_headers [of exPublic
      "constEnv (Inr None) (Inr (exBucket (Some Enabled), None)) (Inr (Some exMarker)) None
         (Inr \<lparr> versionId = Some ''v7'' \<rparr>)" exRequest]
    objectDelete_cors_headers [of exUser
      "constEnv (Inl (errors InvalidArgument)) (Inr (exBucket (Some Enabled), None))
         (Inr (Some exMarker)) None (Inr \<lparr> versionId = Some ''v7'' \<rparr>)"
      "exTokenRequest ''zz''"]
    objectDelete_cors_headers [of exUser
      "constEnv (Inr (Some ''v1'')) (Inr (exBucket (Some Suspended), None))
         (Inr (Some (exDelete (Some ''v1'')))) None (Inr \<lparr> versionId = Some ''v2'' \<rparr>)"
      exRequest]
    objectDelete_cors_headers [of exUser
      "constEnv (Inr None) (Inl (errors (OtherError ''InternalError''), None))
         (Inr None) None (Inr \<lparr> versionId = None \<rparr>)" exRequest]
    objectDelete_cors_headers [of exUser
      "constEnv (Inr (Some ''v3'')) (Inr (exBucket (Some Enabled), Some (exObject True)))
         (Inr (Some (exDelete (Some ''v3'')))) None (Inr \<lparr> versionId = None \<rparr>)"
      exRequest]
    objectDelete_cors_headers [of exUser
      "constEnv (Inr None) (Inr (exBucket (Some Enabled), None)) (Inr (Some exMarker)) None
         (Inr \<lparr> versionId = Some ''v7'' \<rparr>)" exRequest]
  by (simp add: od_defs ex_defs exTokenRequest_def truthy_def bucketOfLookup_def
        readsMissingObject_def deletesData_def)

section \<open>Properties of the Get orchestrator\<close>

text \<open>
  Claim C4. For a GET whose resolved version is a delete marker, the failure depends on
  how the marker was reached: with an explicit version id that names the marker the
  request fails with MethodNotAllowed (405); with no version id, the marker being the
  current version, it fails with NoSuchKey (404); and the two outcomes differ although
  both resolve to the same marker.
\<close>

theorem objectGet_delete_marker_errors:
  "(decodeToken c t = Some k \<and> resolve (Some k) = Some m \<and> v_isDeleteMarker m \<longrightarrow>
      objectGet c resolve (Some t) = Inl (errors MethodNotAllowed))
   \<and> (resolve None = Some m \<and> v_isDeleteMarker m \<longrightarrow>
      objectGet c resolve None = Inl (errors NoSuchKey))
   \<and> (decodeToken c t = Some k \<and> resolve (Some k) = Some m \<and> resolve None = Some m
        \<and> v_isDeleteMarker m \<longrightarrow>
      objectGet c resolve (Some t) \<noteq> objectGet c resolve None)
   \<and> statusCode MethodNotAllowed = Some 405 \<and> statusCode NoSuchKey = Some 404"
  by (simp add: objectGet_def errors_def)

theorem objectGet_delete_marker_errors_witness:
  "objectGet exCodec
     (exResolve \<lparr> v_key = ''d1'', v_content = [], v_isDeleteMarker = True \<rparr>)
     (Some ''xd1'') = Inl (errors MethodNotAllowed)
   \<and> objectGet exCodec
       (exResolve \<lparr> v_key = ''d1'', v_content = [], v_isDeleteMarker = True \<rparr>)
       None = Inl (errors NoSuchKey)"
  using objectGet_delete_marker_errors [of exCodec "''xd1''" "''d1''"
          "exResolve \<lparr> v_key = ''d1'', v_content = [], v_isDeleteMarker = True \<rparr>"
          "\<lparr> v_key = ''d1'', v_content = [], v_isDeleteMarker = True \<rparr>"]
  by (simp add: exCodec_def exResolve_def decodeToken_def)

text \<open>
  Claim C5. With a codec whose decode undoes encode and never issues the reserved token
  "null", a GET with an explicit version id that resolves to an ordinary version returns
  the content of that version and echoes the requested id after the codec round trip: the
  echoed token decodes to the id the requested token decodes to, and it is the requested
  token itself whenever that token is one the codec issues.
\<close>

theorem objectGet_echoes_version_id:
  assumes "\<forall>j. decode c (encode c j) = Some j"
      and "\<forall>j. encode c j \<noteq> ''null''"
      and "decodeToken c t = Some k"
      and "resolve (Some k) = Some v"
      and "\<not> v_isDeleteMarker v"
  shows "objectGet c resolve (Some t) = Inr (v_content v, encodeToken c k)
         \<and> decodeToken c (encodeToken c k) = decodeToken c t
         \<and> (\<forall>k'. t = encodeToken c k' \<longrightarrow> encodeToken c k = t)"
proof -
  have rt: "decodeToken c (encodeToken c j) = Some j" for j
    using assms(1,2) by (simp add: decodeToken_def encodeToken_def)
  have "objectGet c resolve (Some t) = Inr (v_content v, encodeToken c k)"
    using assms(3,4,5) by (simp add: objectGet_def)
  moreover have "decodeToken c (encodeToken c k) = decodeToken c t"
    using rt assms(3) by simp
  moreover have "encodeToken c k = t" if "t = encodeToken c k'" for k'
  proof -
    from that assms(3) rt [of k'] have "k' = k" by simp
    with that show ?thesis by simp
  qed
  ultimately show ?thesis by blast
qed

theorem objectGet_echoes_version_id_witness:
  "objectGet exCodec
     (exResolve \<lparr> v_key = ''v1'', v_content = ''hello'', v_isDeleteMarker = False \<rparr>)
     (Some ''xv1'') = Inr (''hello'', ''xv1'')"
  using objectGet_echoes_version_id [of exCodec "''xv1''" "''v1''"
          "exResolve \<lparr> v_key = ''v1'', v_content = ''hello'', v_isDeleteMarker = False \<rparr>"
          "\<lparr> v_key = ''v1'', v_content = ''hello'', v_isDeleteMarker = False \<rparr>"]
  by (simp add: exCodec_def exResolve_def decodeToken_def encodeToken_def)

end
